theory Spec2Isabelle
  imports Complex_Main
begin

section \<open>Python values, exceptions and the arithmetic used by the scorer\<close>

text \<open>
  The scorer in \<^verbatim>\<open>src/py/autoevals/number.py\<close> is dynamically typed. The values that
  reach it are modelled as \<open>None\<close> or a number; numbers are taken under exact arithmetic,
  so Python's \<open>int\<close> and \<open>float\<close> are both read as a \<^typ>\<open>real\<close> (rounding,
  infinities and NaN are outside the model).
\<close>

datatype pyval = PyNone | PyNum real

text \<open>
  The exceptions the method can raise: the explicit \<open>raise ValueError(...)\<close> with its
  message, the \<open>TypeError\<close> of an arithmetic operator applied to \<open>None\<close>, and the
  \<open>ZeroDivisionError\<close> of \<open>/\<close>.
\<close>

datatype error = ValueError string | TypeError | ZeroDivisionError

text \<open>Sequencing of fallible steps: the first exception raised is the result.\<close>

definition bind_result :: "error + 'a \<Rightarrow> ('a \<Rightarrow> error + 'b) \<Rightarrow> error + 'b" where
  "bind_result r f = (case r of Inl e \<Rightarrow> Inl e | Inr v \<Rightarrow> f v)"

text \<open>\<open>x is None\<close>.\<close>

fun is_None :: "pyval \<Rightarrow> bool" where
  "is_None PyNone = True"
| "is_None (PyNum _) = False"

text \<open>\<open>x == y\<close>: never raises; \<open>None\<close> equals only \<open>None\<close>.\<close>

fun py_eq :: "pyval \<Rightarrow> pyval \<Rightarrow> bool" where
  "py_eq (PyNum a) (PyNum b) = (a = b)"
| "py_eq PyNone PyNone = True"
| "py_eq _ _ = False"

text \<open>\<open>x - y\<close>.\<close>

fun py_sub :: "pyval \<Rightarrow> pyval \<Rightarrow> error + pyval" where
  "py_sub (PyNum a) (PyNum b) = Inr (PyNum (a - b))"
| "py_sub _ _ = Inl TypeError"

text \<open>\<open>abs(x)\<close>.\<close>

fun py_abs :: "pyval \<Rightarrow> error + pyval" where
  "py_abs (PyNum a) = Inr (PyNum \<bar>a\<bar>)"
| "py_abs PyNone = Inl TypeError"

text \<open>
  \<open>max(x, y)\<close> with two positional arguments: the second is taken only when it is
  strictly greater than the first; comparing with \<open>None\<close> raises.
\<close>

fun py_max :: "pyval \<Rightarrow> pyval \<Rightarrow> error + pyval" where
  "py_max (PyNum a) (PyNum b) = Inr (PyNum (if b > a then b else a))"
| "py_max _ _ = Inl TypeError"

text \<open>\<open>x / y\<close>: true division, which raises on a zero divisor.\<close>

fun py_truediv :: "pyval \<Rightarrow> pyval \<Rightarrow> error + pyval" where
  "py_truediv (PyNum a) (PyNum b) =
     (if b = 0 then Inl ZeroDivisionError else Inr (PyNum (a / b)))"
| "py_truediv _ _ = Inl TypeError"

section \<open>The \<open>Score\<close> record and \<open>NumericDiff._run_eval_sync\<close>\<close>

text \<open>
  \<open>Score(name=..., score=...)\<close>: the class is imported from \<open>.base\<close>; only the two
  fields the method sets are needed.
\<close>

record Score =
  name :: string
  score :: pyval

text \<open>Keyword arguments \<open>**kwargs\<close>: a dictionary from argument names to values.\<close>

type_synonym kwargs = "string \<rightharpoonup> pyval"

text \<open>
  The two operands of the division in the \<open>else\<close> branch:
  \<open>abs(expected - output)\<close> and \<open>max(abs(expected), abs(output))\<close>.
\<close>

definition numerator :: "pyval \<Rightarrow> pyval \<Rightarrow> error + pyval" where
  "numerator expected output = bind_result (py_sub expected output) py_abs"

definition denominator :: "pyval \<Rightarrow> pyval \<Rightarrow> error + pyval" where
  "denominator expected output =
     bind_result (py_abs expected) (\<lambda>ae.
     bind_result (py_abs output) (\<lambda>ao.
     py_max ae ao))"

text \<open>
  \<open>_run_eval_sync(self, output, expected=None, **kwargs)\<close>. The inherited
  \<open>self._name()\<close> is not part of the file; its result is the parameter \<open>self_name\<close>.
  Operands are evaluated left to right, as Python does: the numerator first, then the
  denominator, then the division, then the subtraction from 1.
\<close>

definition run_eval_sync :: "string \<Rightarrow> pyval \<Rightarrow> pyval \<Rightarrow> kwargs \<Rightarrow> error + Score" where
  "run_eval_sync self_name output expected kw =
     (if is_None expected then
        Inl (ValueError ''LevenshteinScorer requires an expected value'')
      else if py_eq expected (PyNum 0) \<and> py_eq output (PyNum 0) then
        Inr \<lparr>name = self_name, score = PyNum 1\<rparr>
      else
        bind_result (numerator expected output) (\<lambda>num.
        bind_result (denominator expected output) (\<lambda>den.
        bind_result (py_truediv num den) (\<lambda>q.
        bind_result (py_sub (PyNum 1) q) (\<lambda>s.
        Inr \<lparr>name = self_name, score = s\<rparr>)))))"

section \<open>Auxiliary facts\<close>

lemma bind_result_Inr [simp]: "bind_result (Inr v) f = f v"
  by (simp add: bind_result_def)

lemma bind_result_Inl [simp]: "bind_result (Inl e) f = Inl e"
  by (simp add: bind_result_def)

lemma numerator_numbers: "numerator (PyNum e) (PyNum out) = Inr (PyNum \<bar>e - out\<bar>)"
  by (simp add: numerator_def)

lemma denominator_numbers:
  "denominator (PyNum e) (PyNum out) = Inr (PyNum (max \<bar>e\<bar> \<bar>out\<bar>))"
  by (simp add: denominator_def max_def)

lemma max_abs_zero_iff: "max \<bar>e\<bar> \<bar>out::real\<bar> = 0 \<longleftrightarrow> e = 0 \<and> out = 0"
  by (auto simp add: max_def)

lemma max_abs_positive: "e \<noteq> 0 \<or> out \<noteq> 0 \<Longrightarrow> 0 < max \<bar>e\<bar> \<bar>out::real\<bar>"
  by (auto simp add: max_def)

text \<open>The method on two numbers, in closed form.\<close>

lemma run_eval_sync_numbers:
  "run_eval_sync nm (PyNum out) (PyNum e) kw =
     Inr \<lparr>name = nm,
          score = PyNum (if e = 0 \<and> out = 0 then 1
                         else 1 - \<bar>e - out\<bar> / max \<bar>e\<bar> \<bar>out\<bar>)\<rparr>"
proof (cases "e = 0 \<and> out = 0")
  case True
  then show ?thesis by (simp add: run_eval_sync_def)
next
  case False
  then have "max \<bar>e\<bar> \<bar>out\<bar> \<noteq> 0" by (simp add: max_abs_zero_iff)
  with False show ?thesis
    by (simp add: run_eval_sync_def numerator_numbers denominator_numbers)
qed

text \<open>Same-sign operands: the distance is the gap between the two magnitudes.\<close>

lemma same_sign_cases:
  fixes a b :: real
  assumes "a \<noteq> 0" "b \<noteq> 0" "sgn a = sgn b"
  shows "(0 < a \<and> 0 < b) \<or> (a < 0 \<and> b < 0)"
  using assms by (auto simp add: sgn_real_def split: if_splits)

lemma same_sign_distance:
  fixes a b :: real
  assumes "a \<noteq> 0" "b \<noteq> 0" "sgn a = sgn b"
  shows "abs (b - a) = max (abs a) (abs b) - min (abs a) (abs b)"
  using same_sign_cases [OF assms] by (auto simp add: max_def min_def)

lemma same_sign_score:
  fixes a b :: real
  assumes "a \<noteq> 0" "b \<noteq> 0" "sgn a = sgn b"
  shows "1 - abs (b - a) / max (abs a) (abs b) = min (abs a) (abs b) / max (abs a) (abs b)"
proof -
  let ?m = "max (abs a) (abs b)"
  from assms(1) have pos: "?m \<noteq> 0" by (simp add: max_abs_zero_iff)
  then have "1 - abs (b - a) / ?m = (?m - abs (b - a)) / ?m"
    by (simp add: diff_divide_distrib)
  also have "?m - abs (b - a) = min (abs a) (abs b)"
    using same_sign_distance [OF assms] by simp
  finally show ?thesis .
qed

lemma min_over_max_unit:
  fixes a b :: real
  shows "0 \<le> min (abs a) (abs b) / max (abs a) (abs b)"
    and "min (abs a) (abs b) / max (abs a) (abs b) \<le> 1"
proof -
  show "0 \<le> min (abs a) (abs b) / max (abs a) (abs b)" by simp
  show "min (abs a) (abs b) / max (abs a) (abs b) \<le> 1"
  proof (cases "max (abs a) (abs b) = 0")
    case True
    then show ?thesis by simp
  next
    case False
    moreover have "0 \<le> max (abs a) (abs b)" by simp
    ultimately have pos: "0 < max (abs a) (abs b)" by (simp only: less_le) simp
    have "min (abs a) (abs b) \<le> max (abs a) (abs b)"
      by (simp add: min_le_iff_disj le_max_iff_disj)
    with pos show ?thesis by (simp only: divide_le_eq_1_pos)
  qed
qed

text \<open>The score never exceeds 1: a non-negative quotient is subtracted from 1.\<close>

lemma formula_le_one:
  fixes e out :: real
  shows "(if e = 0 \<and> out = 0 then 1 else 1 - abs (e - out) / max (abs e) (abs out)) \<le> 1"
  by simp

section \<open>The formula and its worked example\<close>

text \<open>
  Claim C1. For every real \<open>output\<close> and every real (non-absent) \<open>expected\<close>, the
  method returns a score record whose score is 1 when both are 0 and otherwise
  \<open>1 - abs(expected - output) / max(abs(expected), abs(output))\<close>; in particular
  output 10 against expected 5 scores one half.
\<close>

theorem numeric_diff_formula:
  "run_eval_sync nm (PyNum out) (PyNum e) kw =
     Inr \<lparr>name = nm,
          score = PyNum (if e = 0 \<and> out = 0 then 1
                         else 1 - \<bar>e - out\<bar> / max \<bar>e\<bar> \<bar>out\<bar>)\<rparr>
   \<and> run_eval_sync nm (PyNum 10) (PyNum 5) kw = Inr \<lparr>name = nm, score = PyNum (1 / 2)\<rparr>"
  by (simp add: run_eval_sync_numbers)

section \<open>Missing expected value\<close>

text \<open>
  Claim C2. For every output value (a number or \<open>None\<close>) and every keyword
  configuration, an absent \<open>expected\<close> makes the method raise the \<open>ValueError\<close> of its
  guard clause; no score record is returned, in particular none with score 0.
\<close>

theorem missing_expected_raises:
  "run_eval_sync nm output PyNone kw =
     Inl (ValueError ''LevenshteinScorer requires an expected value'')
   \<and> (\<nexists>s. run_eval_sync nm output PyNone kw = Inr s)"
  by (simp add: run_eval_sync_def)

section \<open>Equal inputs\<close>

text \<open>
  Claim C3. For every real \<open>x\<close>, scoring \<open>x\<close> against itself gives exactly 1; at
  \<open>x = 0\<close> the result is the score 1 and not a division-by-zero fault.
\<close>

theorem equal_inputs_score_one:
  "run_eval_sync nm (PyNum x) (PyNum x) kw = Inr \<lparr>name = nm, score = PyNum 1\<rparr>
   \<and> run_eval_sync nm (PyNum 0) (PyNum 0) kw = Inr \<lparr>name = nm, score = PyNum 1\<rparr>
   \<and> run_eval_sync nm (PyNum 0) (PyNum 0) kw \<noteq> Inl ZeroDivisionError"
  by (simp add: run_eval_sync_numbers)

section \<open>Exactly one input zero\<close>

text \<open>
  Claim C4. When exactly one of \<open>output\<close> and \<open>expected\<close> is zero and the other is
  not, the score is 0; so it is for output 5 against expected 0 and for output 0
  against expected 5.
\<close>

theorem one_zero_score_zero:
  "(out = 0 \<and> e \<noteq> 0) \<or> (out \<noteq> 0 \<and> e = 0) \<Longrightarrow>
     run_eval_sync nm (PyNum out) (PyNum e) kw = Inr \<lparr>name = nm, score = PyNum 0\<rparr>"
  by (auto simp add: run_eval_sync_numbers)

theorem one_zero_score_zero_witness:
  "((5::real) \<noteq> 0 \<and> (0::real) = 0)
   \<and> run_eval_sync ''NumericDiff'' (PyNum 5) (PyNum 0) Map.empty =
       Inr \<lparr>name = ''NumericDiff'', score = PyNum 0\<rparr>
   \<and> run_eval_sync ''NumericDiff'' (PyNum 0) (PyNum 5) Map.empty =
       Inr \<lparr>name = ''NumericDiff'', score = PyNum 0\<rparr>"
  using one_zero_score_zero [of 5 0 "''NumericDiff''" Map.empty]
        one_zero_score_zero [of 0 5 "''NumericDiff''" Map.empty]
  by simp

section \<open>Opposite signs, equal magnitude\<close>

text \<open>
  Claim C5. For every nonzero real \<open>x\<close>, output \<open>-x\<close> against expected \<open>x\<close> scores
  \<open>-1\<close>, a value outside the interval from 0 to 1; so does output \<open>-5\<close> against
  expected 5.
\<close>

theorem opposite_sign_score_minus_one:
  "x \<noteq> 0 \<Longrightarrow>
     run_eval_sync nm (PyNum (- x)) (PyNum x) kw = Inr \<lparr>name = nm, score = PyNum (- 1)\<rparr>
     \<and> (- 1 :: real) \<notin> {0..1}"
proof -
  assume nz: "x \<noteq> 0"
  have "abs (x - - x) = 2 * abs x" by simp
  with nz have "1 - abs (x - - x) / max (abs x) (abs (- x)) = - 1" by simp
  with nz show ?thesis by (simp add: run_eval_sync_numbers)
qed

theorem opposite_sign_score_minus_one_witness:
  "(5::real) \<noteq> 0
   \<and> run_eval_sync ''NumericDiff'' (PyNum (- 5)) (PyNum 5) Map.empty =
       Inr \<lparr>name = ''NumericDiff'', score = PyNum (- 1)\<rparr>
   \<and> (- 1 :: real) \<notin> {0..1}"
  using opposite_sign_score_minus_one [of 5 "''NumericDiff''" Map.empty] by simp

section \<open>Symmetry\<close>

text \<open>
  Claim C6. For all nonzero reals \<open>a\<close> and \<open>b\<close> of the same sign, scoring output \<open>a\<close>
  against expected \<open>b\<close> and output \<open>b\<close> against expected \<open>a\<close> give equal results.
\<close>

theorem same_sign_symmetric:
  "a \<noteq> 0 \<Longrightarrow> b \<noteq> 0 \<Longrightarrow> sgn a = sgn b \<Longrightarrow>
     run_eval_sync nm (PyNum a) (PyNum b) kw = run_eval_sync nm (PyNum b) (PyNum a) kw"
  by (simp add: run_eval_sync_numbers abs_minus_commute max.commute)

theorem same_sign_symmetric_witness:
  "(10::real) \<noteq> 0 \<and> (5::real) \<noteq> 0 \<and> sgn (10::real) = sgn 5
   \<and> run_eval_sync ''NumericDiff'' (PyNum 10) (PyNum 5) Map.empty =
       run_eval_sync ''NumericDiff'' (PyNum 5) (PyNum 10) Map.empty"
  using same_sign_symmetric [of 10 5 "''NumericDiff''" Map.empty] by simp

section \<open>Keyword configuration\<close>

text \<open>
  Claim C7. For every fixed pair of numeric inputs, the result (and so the score) is
  the same for any two choices of the extra keyword arguments.
\<close>

theorem kwargs_irrelevant:
  "run_eval_sync nm (PyNum out) (PyNum e) kw1 = run_eval_sync nm (PyNum out) (PyNum e) kw2
   \<and> map_sum id score (run_eval_sync nm (PyNum out) (PyNum e) kw1) =
       map_sum id score (run_eval_sync nm (PyNum out) (PyNum e) kw2)"
  by (simp add: run_eval_sync_def)

section \<open>Upper bound\<close>

text \<open>
  Claim C8. For every real \<open>output\<close> and every real \<open>expected\<close> a score is returned
  and it is at most 1; it can be negative for inputs of mixed sign, as for output
  \<open>-1\<close> against expected 3.
\<close>

theorem score_at_most_one:
  "(\<exists>s. run_eval_sync nm (PyNum out) (PyNum e) kw = Inr \<lparr>name = nm, score = PyNum s\<rparr>
        \<and> s \<le> 1)
   \<and> (\<exists>s. run_eval_sync nm (PyNum (- 1)) (PyNum 3) kw = Inr \<lparr>name = nm, score = PyNum s\<rparr>
        \<and> s < 0)"
proof
  show "\<exists>s. run_eval_sync nm (PyNum out) (PyNum e) kw = Inr \<lparr>name = nm, score = PyNum s\<rparr>
        \<and> s \<le> 1"
    using formula_le_one [of e out] by (simp add: run_eval_sync_numbers)
  show "\<exists>s. run_eval_sync nm (PyNum (- 1)) (PyNum 3) kw = Inr \<lparr>name = nm, score = PyNum s\<rparr>
        \<and> s < 0"
    by (simp add: run_eval_sync_numbers)
qed

section \<open>Safety of the division\<close>

text \<open>
  Claim C9. Whenever the formula branch is taken on two reals (not both are zero),
  the denominator \<open>max(abs(expected), abs(output))\<close> is computed and is strictly
  positive; the method never raises \<open>ZeroDivisionError\<close> on a pair of reals.
\<close>

theorem division_safe:
  "(\<not> (py_eq (PyNum e) (PyNum 0) \<and> py_eq (PyNum out) (PyNum 0)) \<longrightarrow>
      (\<exists>d. denominator (PyNum e) (PyNum out) = Inr (PyNum d)
           \<and> d = max \<bar>e\<bar> \<bar>out\<bar> \<and> 0 < d))
   \<and> run_eval_sync nm (PyNum out) (PyNum e) kw \<noteq> Inl ZeroDivisionError"
  by (simp add: denominator_numbers max_abs_positive run_eval_sync_numbers)

theorem division_safe_witness:
  "\<not> (py_eq (PyNum 0) (PyNum 0) \<and> py_eq (PyNum 3) (PyNum 0))
   \<and> denominator (PyNum 0) (PyNum 3) = Inr (PyNum 3)
   \<and> run_eval_sync ''NumericDiff'' (PyNum 3) (PyNum 0) Map.empty \<noteq> Inl ZeroDivisionError"
  using division_safe [of 0 3 "''NumericDiff''" Map.empty] by simp

section \<open>Same-sign inputs\<close>

text \<open>
  Claim C10. For all nonzero reals \<open>a\<close> and \<open>b\<close> of the same sign, output \<open>a\<close> against
  expected \<open>b\<close> scores \<open>min(abs(a), abs(b)) / max(abs(a), abs(b))\<close>, which lies between
  0 and 1.
\<close>

theorem same_sign_score_ratio:
  "a \<noteq> 0 \<Longrightarrow> b \<noteq> 0 \<Longrightarrow> sgn a = sgn b \<Longrightarrow>
     run_eval_sync nm (PyNum a) (PyNum b) kw =
       Inr \<lparr>name = nm, score = PyNum (min (abs a) (abs b) / max (abs a) (abs b))\<rparr>
     \<and> min (abs a) (abs b) / max (abs a) (abs b) \<in> {0..1}"
proof -
  assume h: "a \<noteq> 0" "b \<noteq> 0" "sgn a = sgn b"
  have "run_eval_sync nm (PyNum a) (PyNum b) kw =
          Inr \<lparr>name = nm, score = PyNum (1 - abs (b - a) / max (abs b) (abs a))\<rparr>"
    using h(1) by (simp add: run_eval_sync_numbers)
  also have "1 - abs (b - a) / max (abs b) (abs a) = min (abs a) (abs b) / max (abs a) (abs b)"
    using same_sign_score [OF h] by (simp add: max.commute)
  finally show ?thesis
    using min_over_max_unit [of a b] by simp
qed

theorem same_sign_score_ratio_witness:
  "(10::real) \<noteq> 0 \<and> (5::real) \<noteq> 0 \<and> sgn (10::real) = sgn 5
   \<and> run_eval_sync ''NumericDiff'' (PyNum 10) (PyNum 5) Map.empty =
       Inr \<lparr>name = ''NumericDiff'', score = PyNum (1 / 2)\<rparr>"
  using same_sign_score_ratio [of 10 5 "''NumericDiff''" Map.empty] by simp

end
